theory Spec2Isabelle
  imports Main "HOL-Library.AList"
begin

section \<open>The MCP test client: data model\<close>

text \<open>
  The theory embeds \<^verbatim>\<open>src/client/MCPTestClient.ts\<close> and the types of
  \<^verbatim>\<open>src/types/index.ts\<close> it uses. The class \<^verbatim>\<open>MCPTestClient\<close> mutates
  its own fields and the operating system (it spawns and signals processes, writes to the
  console, sends requests to the server): both are explicit here, the fields as the record
  \<open>MCPTestClient\<close> and everything outside the object as the record \<open>world\<close>. A method is
  a function from the pair of the two to its outcome and the updated pair; a \<^verbatim>\<open>throw\<close>
  or a rejected promise is the outcome \<open>Inl e\<close>.

  The protocol client and the transport of \<^verbatim>\<open>@modelcontextprotocol/sdk\<close> and
  \<^verbatim>\<open>child_process.spawn\<close> are external collaborators. What they answer is not
  decided by this repository, so every answer is a parameter of the method that awaits it:
  which streams the spawned process has, whether the handshake resolves or rejects, whether
  closing rejects, what the server replies.
\<close>

datatype TransportType = stdio | sse | http

datatype json = JNull | JBool bool | JNum int | JStr string
  | JArr "json list" | JObj "(string \<times> json) list"

text \<open>
  A thrown value: the \<^verbatim>\<open>Error\<close> objects the client creates itself carry only a
  message; a failure reported by the server carries code, message and data; a result the
  SDK client refuses because it does not fit the result schema is a validation error that
  names the field at fault.
\<close>

datatype error = Error string | McpError int string "json option" | ZodError string

text \<open>
  A JavaScript object used as a dictionary is an association list in insertion order with
  distinct keys. A key bound to \<^verbatim>\<open>undefined\<close> is bound to \<open>None\<close>.
\<close>

type_synonym 'v obj = "(string \<times> 'v) list"

text \<open>\<^verbatim>\<open>MCPTestClientConfig\<close>: every field but \<^verbatim>\<open>command\<close> is optional.\<close>

record MCPTestClientConfig =
  opt_command :: string
  opt_args :: "string list option"
  opt_env :: "string option obj option"
  opt_timeout :: "int option"
  opt_transport :: "TransportType option"
  opt_serverUrl :: "string option"
  opt_debug :: "bool option"

text \<open>\<^verbatim>\<open>Required<MCPTestClientConfig>\<close>, the configuration the constructor stores.\<close>

record RequiredConfig =
  command :: string
  args :: "string list"
  env :: "string option obj"
  timeout :: int
  transportKind :: TransportType
  serverUrl :: string
  debug :: bool

text \<open>
  The handle \<^verbatim>\<open>spawn\<close> returns. \<open>stdin\<close> and \<open>stdout\<close> say whether the stream
  is there (not \<^verbatim>\<open>null\<close>).
\<close>

record ChildProcess =
  pid :: nat
  stdin :: bool
  stdout :: bool

record StdioClientTransport =
  t_command :: string
  t_args :: "string list"
  t_env :: "string obj"

text \<open>The private fields of the class (the SDK client object itself is external).\<close>

record MCPTestClient =
  transport :: "StdioClientTransport option"
  process :: "ChildProcess option"
  config :: RequiredConfig
  initialized :: bool

text \<open>One call of \<^verbatim>\<open>spawn\<close>, as the operating system saw it.\<close>

record spawn_record =
  sr_pid :: nat
  sr_started :: bool
  sr_command :: string
  sr_args :: "string list"
  sr_env :: "string obj"

datatype request = ListTools | CallTool string "json obj" | ListResources
  | ReadResource string | ListPrompts | GetPrompt string "string obj"

text \<open>
  Everything outside the object: the ambient environment \<^verbatim>\<open>process.env\<close>, the
  processes spawned so far, the processes that were sent a termination signal, the console,
  and the requests sent to the server.
\<close>

record world =
  ambient :: "string option obj"
  spawned :: "spawn_record list"
  signalled :: "nat list"
  console :: "(string \<times> error option) list"
  requests :: "request list"

type_synonym state = "MCPTestClient \<times> world"

text \<open>What the operating system answers to a \<^verbatim>\<open>spawn\<close>.\<close>

record spawn_outcome =
  so_started :: bool
  so_stdin :: bool
  so_stdout :: bool

section \<open>Environment merging\<close>

text \<open>
  \<^verbatim>\<open>{...a, ...b}\<close> defines the entries of \<open>a\<close>, then those of \<open>b\<close>, as own
  properties of a new object, in their order. Defining a key that is there replaces its
  value in place. Two objects are compared by what they bind (\<open>map_of\<close>); the order of
  the entries carries no meaning for an environment.
\<close>

definition spread_into :: "'v obj \<Rightarrow> 'v obj \<Rightarrow> 'v obj" where
  "spread_into target source = fold (\<lambda>(key, val) acc. AList.update key val acc) source target"

definition spread :: "'v obj \<Rightarrow> 'v obj \<Rightarrow> 'v obj" where
  "spread a b = spread_into (spread_into [] a) b"

text \<open>
  \<^verbatim>\<open>cleaned[key] = value\<close> is an assignment to a property of a plain object (one
  created by \<^verbatim>\<open>{}\<close>). For every key but one it defines or replaces the own
  property. The key \<^verbatim>\<open>__proto__\<close> is the accessor a plain object inherits from
  \<^verbatim>\<open>Object.prototype\<close>: the assignment calls its setter, which ignores a value that
  is neither an object nor \<^verbatim>\<open>null\<close>, so assigning a string leaves the object as it
  was. (The spread above defines properties and never calls the setter.)
\<close>

definition assign :: "string \<Rightarrow> string \<Rightarrow> string obj \<Rightarrow> string obj" where
  "assign key v target = (if key = ''__proto__'' then target else AList.update key v target)"

text \<open>The loop of \<^verbatim>\<open>cleanEnv\<close> over \<^verbatim>\<open>Object.entries(env)\<close>.\<close>

fun cleanEnv_loop :: "string option obj \<Rightarrow> string obj \<Rightarrow> string obj" where
  "cleanEnv_loop [] cleaned = cleaned"
| "cleanEnv_loop ((key, val) # entries) cleaned =
     cleanEnv_loop entries
       (case val of None \<Rightarrow> cleaned | Some v \<Rightarrow> assign key v cleaned)"

definition cleanEnv :: "string option obj \<Rightarrow> string obj" where
  "cleanEnv e = cleanEnv_loop e []"

text \<open>The \<^verbatim>\<open>processEnv\<close> of \<^verbatim>\<open>connect\<close>.\<close>

definition processEnv :: "string option obj \<Rightarrow> string option obj \<Rightarrow> string obj" where
  "processEnv amb conf = cleanEnv (spread amb conf)"

section \<open>Constructor, connect and disconnect\<close>

text \<open>
  \<^verbatim>\<open>x || d\<close> takes \<open>d\<close> when \<open>x\<close> is missing or falsy: the number 0, the empty
  string and \<^verbatim>\<open>false\<close> are falsy, arrays and objects never are.
\<close>

definition new_MCPTestClient :: "MCPTestClientConfig \<Rightarrow> MCPTestClient" where
  "new_MCPTestClient c =
     \<lparr> transport = None,
       process = None,
       config = \<lparr> command = opt_command c,
                  args = (case opt_args c of None \<Rightarrow> [] | Some a \<Rightarrow> a),
                  env = (case opt_env c of None \<Rightarrow> [] | Some e \<Rightarrow> e),
                  timeout = (case opt_timeout c of None \<Rightarrow> 5000
                             | Some t \<Rightarrow> if t = 0 then 5000 else t),
                  transportKind = (case opt_transport c of None \<Rightarrow> stdio | Some t \<Rightarrow> t),
                  serverUrl = (case opt_serverUrl c of None \<Rightarrow> [] | Some u \<Rightarrow> u),
                  debug = (case opt_debug c of None \<Rightarrow> False | Some d \<Rightarrow> d) \<rparr>,
       initialized = False \<rparr>"

fun transport_name :: "TransportType \<Rightarrow> string" where
  "transport_name stdio = ''stdio''"
| "transport_name sse = ''sse''"
| "transport_name http = ''http''"

definition quoted :: "string \<Rightarrow> string" where
  "quoted s = CHR 0x27 # s @ [CHR 0x27]"

definition AlreadyConnectedError :: error where
  "AlreadyConnectedError = Error ''Client is already connected''"

definition ConfigurationError :: "TransportType \<Rightarrow> error" where
  "ConfigurationError t =
     Error (''Transport type '' @ quoted (transport_name t) @ '' not yet implemented. Only ''
            @ quoted ''stdio'' @ '' is currently supported.'')"

definition LaunchError :: error where
  "LaunchError = Error ''Failed to create process stdio streams''"

definition NotConnectedError :: error where
  "NotConnectedError = Error ''Client is not connected. Call connect() first.''"

text \<open>
  \<^verbatim>\<open>spawn(command, args, {env})\<close>: the operating system records the call under a
  fresh process id and hands back the handle.
\<close>

definition spawn ::
  "string \<Rightarrow> string list \<Rightarrow> string obj \<Rightarrow> spawn_outcome \<Rightarrow> world \<Rightarrow> ChildProcess \<times> world" where
  "spawn cmd as e so w =
     (let p = length (spawned w) in
      (\<lparr> pid = p, stdin = so_stdin so, stdout = so_stdout so \<rparr>,
       w\<lparr> spawned := spawned w @
            [\<lparr> sr_pid = p, sr_started = so_started so, sr_command = cmd,
               sr_args = as, sr_env = e \<rparr>] \<rparr>))"

text \<open>\<^verbatim>\<open>ChildProcess.kill()\<close> sends the termination signal and does not wait.\<close>

definition kill :: "ChildProcess \<Rightarrow> world \<Rightarrow> world" where
  "kill p w = w\<lparr> signalled := signalled w @ [pid p] \<rparr>"

definition console_log :: "string \<Rightarrow> error option \<Rightarrow> world \<Rightarrow> world" where
  "console_log msg e w = w\<lparr> console := console w @ [(msg, e)] \<rparr>"

text \<open>
  \<^verbatim>\<open>connect()\<close>. \<open>so\<close> is the answer of \<^verbatim>\<open>spawn\<close>, \<open>handshake\<close> the
  outcome of \<^verbatim>\<open>await this.client.connect(this.transport)\<close> (\<open>None\<close>: it resolved).
  The two listeners it installs only write to the console, later and when
  \<^verbatim>\<open>debug\<close> is set; they are not part of what \<^verbatim>\<open>connect\<close> returns.
\<close>

definition connect :: "spawn_outcome \<Rightarrow> error option \<Rightarrow> state \<Rightarrow> (error + unit) \<times> state" where
  "connect so handshake st =
     (let (s, w) = st in
      if initialized s then (Inl AlreadyConnectedError, s, w)
      else if transportKind (config s) \<noteq> stdio
        then (Inl (ConfigurationError (transportKind (config s))), s, w)
      else
        let penv = processEnv (ambient w) (env (config s));
            (p, w1) = spawn (command (config s)) (args (config s)) penv so w;
            s1 = s\<lparr> process := Some p \<rparr>
        in if \<not> stdout p \<or> \<not> stdin p then (Inl LaunchError, s1, w1)
           else
             let s2 = s1\<lparr> transport := Some \<lparr> t_command = command (config s),
                                                t_args = args (config s), t_env = penv \<rparr> \<rparr>
             in case handshake of
                  Some e \<Rightarrow> (Inl e, s2, w1)
                | None \<Rightarrow>
                    (Inr (), s2\<lparr> initialized := True \<rparr>,
                     if debug (config s)
                     then console_log ''MCP Test Client connected successfully'' None w1
                     else w1))"

text \<open>
  \<^verbatim>\<open>disconnect()\<close>. \<open>closing\<close> is the outcome of
  \<^verbatim>\<open>await this.client.close()\<close> (\<open>None\<close>: it resolved). The awaited promise
  is taken to settle, and \<^verbatim>\<open>kill\<close> and the console not to throw.
\<close>

definition disconnect :: "error option \<Rightarrow> state \<Rightarrow> (error + unit) \<times> state" where
  "disconnect closing st =
     (let (s, w) = st in
      if \<not> initialized s then (Inr (), s, w)
      else
        let w1 = (case closing of
                    None \<Rightarrow> w
                  | Some e \<Rightarrow> if debug (config s)
                              then console_log ''Error closing client:'' (Some e) w else w);
            (s1, w2) = (case process s of
                          None \<Rightarrow> (s, w1)
                        | Some p \<Rightarrow> (s\<lparr> process := None \<rparr>, kill p w1));
            s2 = s1\<lparr> transport := None, initialized := False \<rparr>
        in (Inr (), s2,
            if debug (config s) then console_log ''MCP Test Client disconnected'' None w2
            else w2))"

text \<open>
  The processes alive among those the client started itself through
  \<^verbatim>\<open>child_process.spawn\<close>: those that started and were not sent a termination
  signal. The SDK transport is constructed from the command, arguments and environment, not
  from the streams of \<^verbatim>\<open>this.process\<close>, and launches a child of its own when the
  protocol client connects; that child is not in the \<open>world\<close> and \<open>live\<close> does not
  count it. So \<open>live\<close> bounds the live processes of a session from below: a process in
  \<open>live\<close> is alive, and there may be one more.
\<close>

definition live :: "world \<Rightarrow> nat list" where
  "live w = map sr_pid (filter (\<lambda>r. sr_started r \<and> sr_pid r \<notin> set (signalled w)) (spawned w))"

section \<open>Remote calls\<close>

record MCPTool =
  tool_name :: string
  tool_description :: "string option"
  inputSchema :: json

record MCPResource =
  res_uri :: string
  res_name :: string
  res_description :: "string option"
  res_mimeType :: "string option"

record MCPPrompt =
  prompt_name :: string
  prompt_description :: "string option"
  prompt_arguments :: "(string \<times> string option \<times> bool option) list option"

record MCPResourceContent =
  rc_uri :: string
  rc_mimeType :: "string option"
  rc_text :: "string option"

record MCPInitializeResult =
  protocolVersion :: string
  capabilities :: json
  serverInfo_name :: string
  serverInfo_version :: string

definition ensureConnected :: "MCPTestClient \<Rightarrow> error + unit" where
  "ensureConnected s = (if \<not> initialized s then Inl NotConnectedError else Inr ())"

text \<open>
  A remote call: the guard, then the request, then the reply handed to \<open>k\<close>. \<open>reply\<close> is
  what awaiting the SDK call gives: \<open>Inl e\<close> when it rejects, \<open>Inr r\<close> the response.
\<close>

definition remote_call ::
  "request \<Rightarrow> (error + 'r) \<Rightarrow> ('r \<Rightarrow> 'a) \<Rightarrow> state \<Rightarrow> (error + 'a) \<times> state" where
  "remote_call rq reply k st =
     (let (s, w) = st in
      case ensureConnected s of
        Inl e \<Rightarrow> (Inl e, s, w)
      | Inr _ \<Rightarrow>
          (let w1 = w\<lparr> requests := requests w @ [rq] \<rparr> in
           case reply of
             Inl e \<Rightarrow> (Inl e, s, w1)
           | Inr r \<Rightarrow> (Inr (k r), s, w1)))"

text \<open>\<^verbatim>\<open>xs || []\<close> on an optional array.\<close>

definition or_empty :: "'a list option \<Rightarrow> 'a list" where
  "or_empty xs = (case xs of None \<Rightarrow> [] | Some ys \<Rightarrow> ys)"

definition listTools :: "(error + MCPTool list option) \<Rightarrow> state \<Rightarrow> (error + MCPTool list) \<times> state" where
  "listTools reply st = remote_call ListTools reply or_empty st"

definition callTool ::
  "string \<Rightarrow> json obj \<Rightarrow> (error + 'r) \<Rightarrow> state \<Rightarrow> (error + 'r) \<times> state" where
  "callTool name arguments reply st = remote_call (CallTool name arguments) reply (\<lambda>r. r) st"

definition listResources ::
  "(error + MCPResource list option) \<Rightarrow> state \<Rightarrow> (error + MCPResource list) \<times> state" where
  "listResources reply st = remote_call ListResources reply or_empty st"

text \<open>
  \<^verbatim>\<open>response.contents?.[0]\<close>: \<^verbatim>\<open>undefined\<close> (\<open>None\<close>) when
  \<^verbatim>\<open>contents\<close> is missing, and when the array has no element at index 0.
\<close>

definition first_content :: "'c list option \<Rightarrow> 'c option" where
  "first_content contents =
     (case contents of
        None \<Rightarrow> None
      | Some cs \<Rightarrow> (case cs of [] \<Rightarrow> None | c # _ \<Rightarrow> Some c))"

text \<open>
  \<^verbatim>\<open>this.client.readResource({ uri })\<close> of the SDK, between the server's answer and
  the response the method reads. The server answers with an error or with a result; the SDK
  client checks the result against its schema, in which \<^verbatim>\<open>contents\<close> is a required
  array, and rejects the awaited call when the result has none. A response that reaches
  \<^verbatim>\<open>response.contents?.[0]\<close> therefore always has \<^verbatim>\<open>contents\<close>.
\<close>

definition client_readResource :: "(error + 'c list option) \<Rightarrow> (error + 'c list option)" where
  "client_readResource answer =
     (case answer of
        Inl e \<Rightarrow> Inl e
      | Inr None \<Rightarrow> Inl (ZodError ''contents'')
      | Inr (Some cs) \<Rightarrow> Inr (Some cs))"

text \<open>\<^verbatim>\<open>readResource(uri)\<close>; \<open>answer\<close> is what the server answers.\<close>

definition readResource ::
  "string \<Rightarrow> (error + MCPResourceContent list option) \<Rightarrow> state
     \<Rightarrow> (error + MCPResourceContent option) \<times> state" where
  "readResource u answer st =
     remote_call (ReadResource u) (client_readResource answer) first_content st"

definition listPrompts ::
  "(error + MCPPrompt list option) \<Rightarrow> state \<Rightarrow> (error + MCPPrompt list) \<times> state" where
  "listPrompts reply st = remote_call ListPrompts reply or_empty st"

definition getPrompt ::
  "string \<Rightarrow> string obj \<Rightarrow> (error + 'r) \<Rightarrow> state \<Rightarrow> (error + 'r) \<times> state" where
  "getPrompt name arguments reply st = remote_call (GetPrompt name arguments) reply (\<lambda>r. r) st"

definition getServerInfo :: "state \<Rightarrow> (error + MCPInitializeResult) \<times> state" where
  "getServerInfo st =
     (let (s, w) = st in
      case ensureConnected s of
        Inl e \<Rightarrow> (Inl e, s, w)
      | Inr _ \<Rightarrow>
          (Inr \<lparr> protocolVersion = ''2024-11-05'', capabilities = JObj [],
                 serverInfo_name = ''unknown'', serverInfo_version = ''unknown'' \<rparr>, s, w))"

section \<open>Sequences of lifecycle operations\<close>

datatype op = Connect spawn_outcome "error option" | Disconnect "error option"

fun step :: "op \<Rightarrow> state \<Rightarrow> state" where
  "step (Connect so handshake) st = snd (connect so handshake st)"
| "step (Disconnect closing) st = snd (disconnect closing st)"

definition run :: "op list \<Rightarrow> state \<Rightarrow> state" where
  "run ops st = fold step ops st"

section \<open>Invariants of the lifecycle\<close>

text \<open>
  In a connected session both handles are set, and every process id the session holds or
  has signalled was handed out by an earlier \<^verbatim>\<open>spawn\<close>.
\<close>

definition handles_set :: "state \<Rightarrow> bool" where
  "handles_set st \<longleftrightarrow>
     (initialized (fst st) \<longrightarrow> process (fst st) \<noteq> None \<and> transport (fst st) \<noteq> None)"

definition pids_known :: "state \<Rightarrow> bool" where
  "pids_known st \<longleftrightarrow>
     (\<forall>p \<in> set (signalled (snd st)). p < length (spawned (snd st)))
     \<and> (\<forall>p. process (fst st) = Some p \<longrightarrow> pid p < length (spawned (snd st)))"

section \<open>Concrete sessions\<close>

definition node_config :: MCPTestClientConfig where
  "node_config = \<lparr> opt_command = ''node'', opt_args = Some [''server.js''], opt_env = None,
     opt_timeout = None, opt_transport = None, opt_serverUrl = None, opt_debug = None \<rparr>"

definition sse_config :: MCPTestClientConfig where
  "sse_config = node_config\<lparr> opt_transport := Some sse \<rparr>"

definition world0 :: world where
  "world0 = \<lparr> ambient = [(''PATH'', Some ''/bin'')], spawned = [], signalled = [],
     console = [], requests = [] \<rparr>"

definition streams_ok :: spawn_outcome where
  "streams_ok = \<lparr> so_started = True, so_stdin = True, so_stdout = True \<rparr>"

text \<open>
  A handle without \<^verbatim>\<open>stdin\<close>, the case the check after the spawn is written for.
  (\<^verbatim>\<open>connect\<close> passes no \<^verbatim>\<open>stdio\<close> option, so a child that started has
  both streams; the handshake is the failure that occurs with a running child.)
\<close>

definition no_stdin :: spawn_outcome where
  "no_stdin = \<lparr> so_started = True, so_stdin = False, so_stdout = True \<rparr>"

definition connected_state :: state where
  "connected_state = snd (connect streams_ok None (new_MCPTestClient node_config, world0))"

definition content_a :: MCPResourceContent where
  "content_a = \<lparr> rc_uri = ''file:///a.txt'', rc_mimeType = Some ''text/plain'', rc_text = Some ''a'' \<rparr>"

definition content_b :: MCPResourceContent where
  "content_b = \<lparr> rc_uri = ''file:///a.txt'', rc_mimeType = None, rc_text = Some ''b'' \<rparr>"

lemmas demo_defs = node_config_def sse_config_def world0_def streams_ok_def no_stdin_def
  connected_state_def

lemmas lifecycle_defs = connect_def disconnect_def new_MCPTestClient_def spawn_def kill_def
  console_log_def processEnv_def cleanEnv_def spread_def spread_into_def assign_def Let_def

section \<open>The guard and the remote calls\<close>

lemma ensureConnected_not: "\<not> initialized s \<Longrightarrow> ensureConnected s = Inl NotConnectedError"
  by (simp add: ensureConnected_def)

lemma ensureConnected_ok: "initialized s \<Longrightarrow> ensureConnected s = Inr ()"
  by (simp add: ensureConnected_def)

lemma remote_call_not_connected:
  "\<not> initialized s \<Longrightarrow> remote_call rq reply k (s, w) = (Inl NotConnectedError, s, w)"
  by (simp add: remote_call_def ensureConnected_not)

lemma remote_call_connected:
  "initialized s \<Longrightarrow>
   remote_call rq (Inr r) k (s, w) = (Inr (k r), s, w\<lparr> requests := requests w @ [rq] \<rparr>)"
  by (simp add: remote_call_def ensureConnected_ok)

lemma new_not_initialized: "\<not> initialized (new_MCPTestClient c)"
  by (simp add: new_MCPTestClient_def)

lemma connected_state_initialized: "initialized (fst connected_state)"
  by (simp add: demo_defs lifecycle_defs)

text \<open>
  C4. On a session that is not connected, each of the seven remote-call operations fails
  with the error whose message is "Client is not connected. Call connect() first.", and
  leaves the session and the world as they were: no request is sent.
\<close>

theorem remote_calls_require_connection:
  assumes "\<not> initialized s"
  shows "listTools r1 (s, w) = (Inl NotConnectedError, s, w)
       \<and> callTool name targs r2 (s, w) = (Inl NotConnectedError, s, w)
       \<and> listResources r3 (s, w) = (Inl NotConnectedError, s, w)
       \<and> readResource u r4 (s, w) = (Inl NotConnectedError, s, w)
       \<and> listPrompts r5 (s, w) = (Inl NotConnectedError, s, w)
       \<and> getPrompt pname pargs r6 (s, w) = (Inl NotConnectedError, s, w)
       \<and> getServerInfo (s, w) = (Inl NotConnectedError, s, w)
       \<and> NotConnectedError = Error ''Client is not connected. Call connect() first.''"
proof -
  have "getServerInfo (s, w) = (Inl NotConnectedError, s, w)"
    using assms by (simp add: getServerInfo_def ensureConnected_not)
  moreover have "NotConnectedError = Error ''Client is not connected. Call connect() first.''"
    by (simp add: NotConnectedError_def)
  ultimately show ?thesis
    using assms
    by (simp add: listTools_def callTool_def listResources_def readResource_def
        listPrompts_def getPrompt_def remote_call_not_connected)
qed

theorem remote_calls_require_connection_witness:
  "\<not> initialized (new_MCPTestClient node_config)
   \<and> listTools (Inr None) (new_MCPTestClient node_config, world0)
       = (Inl (Error ''Client is not connected. Call connect() first.''),
          new_MCPTestClient node_config, world0)
   \<and> readResource ''file:///a.txt'' (Inr (Some [content_a])) (new_MCPTestClient node_config, world0)
       = (Inl (Error ''Client is not connected. Call connect() first.''),
          new_MCPTestClient node_config, world0)
   \<and> getServerInfo (new_MCPTestClient node_config, world0)
       = (Inl (Error ''Client is not connected. Call connect() first.''),
          new_MCPTestClient node_config, world0)"
proof -
  have h: "\<not> initialized (new_MCPTestClient node_config)"
    by (rule new_not_initialized)
  from remote_calls_require_connection [OF h, of "Inr None" world0 "[]" "[]" "Inr ()" "Inr None"
      "''file:///a.txt''" "Inr (Some [content_a])" "Inr None" "[]" "[]" "Inr ()"] h
  show ?thesis by simp
qed

section \<open>Connect\<close>

text \<open>
  C5. On a session that is not connected and whose transport kind is not \<open>stdio\<close>,
  \<^verbatim>\<open>connect\<close> fails with the configuration error that names the kind, before any
  spawn: the session and the world (and so the list of spawned processes) are unchanged.
  In particular so does the first \<^verbatim>\<open>connect\<close> of a session constructed with such a
  kind.
\<close>

theorem connect_rejects_other_transports:
  assumes "\<not> initialized s" and "transportKind (config s) \<noteq> stdio"
  shows "connect so handshake (s, w) = (Inl (ConfigurationError (transportKind (config s))), s, w)
       \<and> spawned (snd (snd (connect so handshake (s, w)))) = spawned w
       \<and> (opt_transport c = Some t \<and> t \<noteq> stdio \<longrightarrow>
            connect so handshake (new_MCPTestClient c, w)
              = (Inl (ConfigurationError t), new_MCPTestClient c, w))"
proof -
  have "opt_transport c = Some t \<and> t \<noteq> stdio \<longrightarrow>
            connect so handshake (new_MCPTestClient c, w)
              = (Inl (ConfigurationError t), new_MCPTestClient c, w)"
    by (simp add: connect_def new_MCPTestClient_def)
  with assms show ?thesis by (simp add: connect_def)
qed

theorem connect_rejects_other_transports_witness:
  "\<not> initialized (new_MCPTestClient sse_config)
   \<and> transportKind (config (new_MCPTestClient sse_config)) = sse
   \<and> connect streams_ok None (new_MCPTestClient sse_config, world0)
       = (Inl (Error (''Transport type '' @ [CHR 0x27] @ ''sse'' @ [CHR 0x27]
                      @ '' not yet implemented. Only '' @ [CHR 0x27] @ ''stdio'' @ [CHR 0x27]
                      @ '' is currently supported.'')),
          new_MCPTestClient sse_config, world0)
   \<and> spawned (snd (snd (connect streams_ok None (new_MCPTestClient sse_config, world0)))) = []"
proof -
  have h1: "\<not> initialized (new_MCPTestClient sse_config)"
    by (rule new_not_initialized)
  have h2: "transportKind (config (new_MCPTestClient sse_config)) = sse"
    by (simp add: new_MCPTestClient_def sse_config_def)
  then have h3: "transportKind (config (new_MCPTestClient sse_config)) \<noteq> stdio"
    by simp
  from connect_rejects_other_transports [OF h1 h3, of streams_ok None world0] h1 h2
  show ?thesis
    by (simp add: ConfigurationError_def quoted_def world0_def)
qed

text \<open>
  C6. On a connected session \<^verbatim>\<open>connect\<close> fails with "Client is already connected" and
  changes neither the session (flag and handles) nor the world.
\<close>

theorem connect_twice_rejected:
  assumes "initialized s"
  shows "connect so handshake (s, w) = (Inl AlreadyConnectedError, s, w)
       \<and> AlreadyConnectedError = Error ''Client is already connected''"
  using assms by (simp add: connect_def AlreadyConnectedError_def)

theorem connect_twice_rejected_witness:
  "initialized (fst connected_state)
   \<and> connect streams_ok None (fst connected_state, snd connected_state)
       = (Inl (Error ''Client is already connected''), fst connected_state, snd connected_state)"
proof -
  have h: "initialized (fst connected_state)"
    by (rule connected_state_initialized)
  from connect_twice_rejected [OF h, of streams_ok None "snd connected_state"] h
  show ?thesis by simp
qed

section \<open>Disconnect\<close>

lemma disconnect_not_initialized: "\<not> initialized (fst (snd (disconnect closing st)))"
  by (cases st) (simp add: disconnect_def Let_def split: option.splits)

lemma disconnect_noop: "\<not> initialized s \<Longrightarrow> disconnect closing (s, w) = (Inr (), s, w)"
  by (simp add: disconnect_def)

lemma disconnect_connected:
  assumes "initialized s" and "process s = Some p"
  shows "\<exists>w'. disconnect closing (s, w) =
           (Inr (), s\<lparr> process := None, transport := None, initialized := False \<rparr>, w')
         \<and> signalled w' = signalled w @ [pid p] \<and> spawned w' = spawned w"
  using assms by (simp add: disconnect_def Let_def kill_def console_log_def split: option.splits)

lemma connect_handles_set: "handles_set st \<Longrightarrow> handles_set (snd (connect so h st))"
  by (cases st) (simp add: handles_set_def connect_def Let_def spawn_def split: option.splits)

lemma disconnect_handles_set: "handles_set (snd (disconnect closing st))"
  using disconnect_not_initialized [of closing st] by (simp add: handles_set_def)

lemma step_handles_set: "handles_set st \<Longrightarrow> handles_set (step x st)"
  by (cases x) (simp_all add: connect_handles_set disconnect_handles_set)

lemma run_handles_set: "handles_set st \<Longrightarrow> handles_set (run ops st)"
  unfolding run_def by (induction ops arbitrary: st) (simp_all add: step_handles_set)

lemma new_handles_set: "handles_set (new_MCPTestClient c, w)"
  by (simp add: handles_set_def new_not_initialized)

lemma run_connect_ok:
  "run [Connect streams_ok None] (new_MCPTestClient node_config, world0) = connected_state"
  by (simp add: run_def connected_state_def)

text \<open>
  C3. In every state a fresh session reaches through connects and disconnects and in which
  it is connected, \<^verbatim>\<open>disconnect\<close> returns normally whatever closing the protocol
  client does (resolve or reject with any error): the process the session holds is sent the
  termination signal and is no longer alive, both handles are cleared and the session is
  not connected. (\<^verbatim>\<open>kill\<close> and the console are taken not to throw.)
\<close>

theorem disconnect_never_throws:
  assumes "initialized (fst (run ops (new_MCPTestClient c, w0)))"
  shows "\<exists>p s' w'. process (fst (run ops (new_MCPTestClient c, w0))) = Some p
           \<and> disconnect closing (run ops (new_MCPTestClient c, w0)) = (Inr (), s', w')
           \<and> pid p \<in> set (signalled w') \<and> pid p \<notin> set (live w')
           \<and> process s' = None \<and> transport s' = None \<and> \<not> initialized s'"
proof -
  obtain s w where sw: "run ops (new_MCPTestClient c, w0) = (s, w)"
    by (cases "run ops (new_MCPTestClient c, w0)")
  have "handles_set (s, w)"
    using run_handles_set [OF new_handles_set, of ops c w0] sw by simp
  with assms sw obtain p where p: "process s = Some p"
    by (auto simp: handles_set_def)
  from assms sw have i: "initialized s" by simp
  from disconnect_connected [OF i p, of closing w] obtain w' where
    d: "disconnect closing (s, w) =
          (Inr (), s\<lparr> process := None, transport := None, initialized := False \<rparr>, w')"
    and sg: "signalled w' = signalled w @ [pid p]"
    by blast
  have "pid p \<notin> set (live w')"
    using sg by (auto simp: live_def)
  with d sg p sw show ?thesis by simp
qed

theorem disconnect_never_throws_witness:
  "initialized (fst (run [Connect streams_ok None] (new_MCPTestClient node_config, world0)))
   \<and> (\<exists>p s' w'.
         process (fst (run [Connect streams_ok None] (new_MCPTestClient node_config, world0))) = Some p
       \<and> disconnect (Some (Error ''close failed''))
            (run [Connect streams_ok None] (new_MCPTestClient node_config, world0)) = (Inr (), s', w')
       \<and> pid p \<in> set (signalled w') \<and> pid p \<notin> set (live w')
       \<and> process s' = None \<and> transport s' = None \<and> \<not> initialized s')"
proof -
  have h: "initialized (fst (run [Connect streams_ok None] (new_MCPTestClient node_config, world0)))"
    by (simp add: run_connect_ok connected_state_initialized)
  from disconnect_never_throws [OF h] h show ?thesis by blast
qed

text \<open>
  C7. On a session that is not connected \<^verbatim>\<open>disconnect\<close> returns normally and changes
  nothing. Hence a disconnect after a disconnect changes nothing, any number of disconnects
  in a row leave the state of the first, and so does a disconnect after a connect that
  failed on a session that was not connected.
\<close>

theorem disconnect_idempotent:
  "(\<not> initialized s \<longrightarrow> disconnect closing (s, w) = (Inr (), s, w))
   \<and> disconnect closing_b (snd (disconnect closing_a st)) = (Inr (), snd (disconnect closing_a st))
   \<and> run (Disconnect closing_a # map Disconnect closings) st = run [Disconnect closing_a] st
   \<and> (\<not> initialized (fst st) \<and> fst (connect so h st) = Inl e \<longrightarrow>
        disconnect closing (snd (connect so h st)) = (Inr (), snd (connect so h st)))"
proof -
  have a: "\<not> initialized s \<longrightarrow> disconnect closing (s, w) = (Inr (), s, w)"
    by (simp add: disconnect_noop)
  have b: "disconnect cl (snd (disconnect closing_a st)) = (Inr (), snd (disconnect closing_a st))"
    for cl
    using disconnect_not_initialized [of closing_a st] disconnect_noop
    by (cases "snd (disconnect closing_a st)") simp
  have c: "fold step (map Disconnect closings) (snd (disconnect closing_a st))
             = snd (disconnect closing_a st)"
    by (induction closings) (simp_all add: b)
  have d: "\<not> initialized (fst st) \<and> fst (connect so h st) = Inl e \<longrightarrow>
        disconnect closing (snd (connect so h st)) = (Inr (), snd (connect so h st))"
    by (cases st)
       (auto simp: connect_def Let_def spawn_def disconnect_def split: option.splits if_splits)
  from a b c d show ?thesis by (simp add: run_def)
qed

theorem disconnect_idempotent_witness:
  "\<not> initialized (new_MCPTestClient node_config)
   \<and> disconnect None (new_MCPTestClient node_config, world0)
       = (Inr (), new_MCPTestClient node_config, world0)
   \<and> disconnect None (snd (disconnect (Some (Error ''close failed'')) connected_state))
       = (Inr (), snd (disconnect (Some (Error ''close failed'')) connected_state))
   \<and> run [Disconnect None, Disconnect None, Disconnect None] connected_state
       = run [Disconnect None] connected_state
   \<and> fst (connect no_stdin None (new_MCPTestClient node_config, world0)) = Inl LaunchError
   \<and> disconnect None (snd (connect no_stdin None (new_MCPTestClient node_config, world0)))
       = (Inr (), snd (connect no_stdin None (new_MCPTestClient node_config, world0)))"
proof -
  have h1: "\<not> initialized (fst (new_MCPTestClient node_config, world0))"
    by (simp add: new_not_initialized)
  have h2: "fst (connect no_stdin None (new_MCPTestClient node_config, world0)) = Inl LaunchError"
    by (simp add: lifecycle_defs demo_defs)
  have a: "disconnect None (new_MCPTestClient node_config, world0)
             = (Inr (), new_MCPTestClient node_config, world0)"
    using disconnect_idempotent [where s = "new_MCPTestClient node_config" and w = world0
        and closing = None] h1
    by simp
  have b: "disconnect None (snd (disconnect (Some (Error ''close failed'')) connected_state))
             = (Inr (), snd (disconnect (Some (Error ''close failed'')) connected_state))
         \<and> run [Disconnect None, Disconnect None, Disconnect None] connected_state
             = run [Disconnect None] connected_state"
    using disconnect_idempotent [where st = connected_state and closing_b = None
        and closing_a = "Some (Error ''close failed'')" and closings = "[]"]
      disconnect_idempotent [where st = connected_state and closing_a = None
        and closings = "[None, None]"]
    by simp
  have c: "disconnect None (snd (connect no_stdin None (new_MCPTestClient node_config, world0)))
             = (Inr (), snd (connect no_stdin None (new_MCPTestClient node_config, world0)))"
    using disconnect_idempotent [where st = "(new_MCPTestClient node_config, world0)"
        and so = no_stdin and h = None and e = LaunchError and closing = None] h1 h2
    by simp
  from a b c h1 h2 show ?thesis by simp
qed

section \<open>The environment of the spawned process\<close>

lemma map_of_spread_into:
  "distinct (map fst src) \<Longrightarrow>
   map_of (spread_into tgt src) k =
     (case map_of src k of Some v \<Rightarrow> Some v | None \<Rightarrow> map_of tgt k)"
  unfolding spread_into_def
proof (induction src arbitrary: tgt)
  case Nil
  then show ?case by simp
next
  case (Cons e src)
  obtain key val where e: "e = (key, val)" by (cases e)
  from Cons.prems e have notin: "key \<notin> fst ` set src" and d: "distinct (map fst src)"
    by auto
  from notin have none: "map_of src key = None"
    by (simp add: map_of_eq_None_iff)
  show ?case
    using Cons.IH [OF d, of "AList.update key val tgt"] none
    by (simp add: e update_conv' split: option.splits)
qed

lemma distinct_spread_into:
  "distinct (map fst tgt) \<Longrightarrow> distinct (map fst (spread_into tgt src))"
  unfolding spread_into_def
  by (induction src arbitrary: tgt) (auto simp: distinct_update)

lemma map_of_spread:
  assumes "distinct (map fst a)" and "distinct (map fst b)"
  shows "map_of (spread a b) k = (case map_of b k of Some v \<Rightarrow> Some v | None \<Rightarrow> map_of a k)"
  using assms by (simp add: spread_def map_of_spread_into split: option.splits)

lemma distinct_spread: "distinct (map fst (spread a b))"
  by (simp add: spread_def distinct_spread_into)

lemma map_of_assign:
  "map_of (assign key v target) k =
     (if k = key \<and> key \<noteq> ''__proto__'' then Some v else map_of target k)"
  by (simp add: assign_def update_conv')

lemma distinct_assign: "distinct (map fst target) \<Longrightarrow> distinct (map fst (assign key v target))"
  by (simp add: assign_def distinct_update)

lemma map_of_cleanEnv_loop:
  "distinct (map fst es) \<Longrightarrow>
   map_of (cleanEnv_loop es acc) k =
     (case map_of es k of
        Some (Some v) \<Rightarrow> if k = ''__proto__'' then map_of acc k else Some v
      | _ \<Rightarrow> map_of acc k)"
proof (induction es arbitrary: acc)
  case Nil
  then show ?case by simp
next
  case (Cons e es)
  obtain key val where e: "e = (key, val)" by (cases e)
  from Cons.prems e have notin: "key \<notin> fst ` set es" and d: "distinct (map fst es)"
    by auto
  from notin have none: "map_of es key = None"
    by (simp add: map_of_eq_None_iff)
  show ?case
  proof (cases val)
    case None
    with Cons.IH [OF d, of acc] none e show ?thesis
      by (simp split: option.splits)
  next
    case (Some v)
    with Cons.IH [OF d, of "assign key v acc"] none e show ?thesis
      by (simp add: map_of_assign split: option.splits)
  qed
qed

lemma distinct_cleanEnv_loop:
  "distinct (map fst acc) \<Longrightarrow> distinct (map fst (cleanEnv_loop es acc))"
  by (induction es acc rule: cleanEnv_loop.induct) (auto simp: distinct_assign split: option.splits)

lemma map_of_cleanEnv:
  "distinct (map fst es) \<Longrightarrow>
   map_of (cleanEnv es) k =
     (if k = ''__proto__'' then None
      else case map_of es k of Some (Some v) \<Rightarrow> Some v | _ \<Rightarrow> None)"
  by (simp add: cleanEnv_def map_of_cleanEnv_loop split: option.splits)

lemma connect_spawned:
  "\<not> initialized s \<Longrightarrow> transportKind (config s) = stdio \<Longrightarrow>
   spawned (snd (snd (connect so h (s, w)))) = spawned w @
     [\<lparr> sr_pid = length (spawned w), sr_started = so_started so,
        sr_command = command (config s), sr_args = args (config s),
        sr_env = processEnv (ambient w) (env (config s)) \<rparr>]"
  by (simp add: connect_def Let_def spawn_def console_log_def split: option.splits)

text \<open>
  C8, as the code behaves. For an ambient environment and a configured environment
  (objects: their keys are distinct), the environment \<^verbatim>\<open>connect\<close> computes binds
  every key other than \<^verbatim>\<open>__proto__\<close> as follows: a key the configuration binds to a
  string has that string, a key the configuration binds to \<^verbatim>\<open>undefined\<close> is absent,
  and any other key has its ambient string if the ambient environment binds it to one and
  is absent otherwise. The key \<^verbatim>\<open>__proto__\<close> is absent whatever the two bind it to.
  The result is again an object, and it is the environment of the process
  \<^verbatim>\<open>connect\<close> spawns.
\<close>

theorem effective_environment:
  assumes "distinct (map fst amb)" and "distinct (map fst conf)"
  shows "map_of (processEnv amb conf) k =
           (if k = ''__proto__'' then None
            else case map_of conf k of
                   Some (Some v) \<Rightarrow> Some v
                 | Some None \<Rightarrow> None
                 | None \<Rightarrow> (case map_of amb k of Some (Some v) \<Rightarrow> Some v | _ \<Rightarrow> None))
       \<and> distinct (map fst (processEnv amb conf))
       \<and> (\<not> initialized s \<and> transportKind (config s) = stdio \<and> ambient w = amb
            \<and> env (config s) = conf \<longrightarrow>
          sr_env (last (spawned (snd (snd (connect so h (s, w)))))) = processEnv amb conf)"
proof -
  have "map_of (processEnv amb conf) k =
           (if k = ''__proto__'' then None
            else case map_of conf k of
                   Some (Some v) \<Rightarrow> Some v
                 | Some None \<Rightarrow> None
                 | None \<Rightarrow> (case map_of amb k of Some (Some v) \<Rightarrow> Some v | _ \<Rightarrow> None))"
    using assms
    by (simp add: processEnv_def map_of_cleanEnv distinct_spread map_of_spread
        split: option.splits)
  moreover have "distinct (map fst (processEnv amb conf))"
    by (simp add: processEnv_def cleanEnv_def distinct_cleanEnv_loop)
  moreover have "\<not> initialized s \<and> transportKind (config s) = stdio \<and> ambient w = amb
            \<and> env (config s) = conf \<longrightarrow>
          sr_env (last (spawned (snd (snd (connect so h (s, w)))))) = processEnv amb conf"
    by (auto simp: connect_spawned)
  ultimately show ?thesis by blast
qed

theorem effective_environment_witness:
  "distinct (map fst [(''PATH'', Some ''/bin''), (''HOME'', Some ''/root''), (''TMP'', None)])
   \<and> distinct (map fst [(''HOME'', None), (''PATH'', Some ''/usr/bin''), (''__proto__'', Some ''x'')])
   \<and> map_of (processEnv [(''PATH'', Some ''/bin''), (''HOME'', Some ''/root''), (''TMP'', None)]
                [(''HOME'', None), (''PATH'', Some ''/usr/bin''), (''__proto__'', Some ''x'')])
        ''PATH'' = Some ''/usr/bin''
   \<and> map_of (processEnv [(''PATH'', Some ''/bin''), (''HOME'', Some ''/root''), (''TMP'', None)]
                [(''HOME'', None), (''PATH'', Some ''/usr/bin''), (''__proto__'', Some ''x'')])
        ''HOME'' = None
   \<and> map_of [(''HOME'', None), (''PATH'', Some ''/usr/bin''), (''__proto__'', Some ''x'')]
        ''__proto__'' = Some (Some ''x'')
   \<and> map_of (processEnv [(''PATH'', Some ''/bin''), (''HOME'', Some ''/root''), (''TMP'', None)]
                [(''HOME'', None), (''PATH'', Some ''/usr/bin''), (''__proto__'', Some ''x'')])
        ''__proto__'' = None
   \<and> sr_env (last (spawned (snd (snd (connect streams_ok None
          (new_MCPTestClient node_config, world0))))))
       = processEnv [(''PATH'', Some ''/bin'')] []"
proof -
  have h1: "distinct (map fst [(''PATH'', Some ''/bin''), (''HOME'', Some ''/root''), (''TMP'', None :: string option)])"
    by simp
  have h2: "distinct (map fst [(''HOME'', None), (''PATH'', Some ''/usr/bin''), (''__proto__'', Some ''x'')])"
    by simp
  have h3: "distinct (map fst [(''PATH'', Some ''/bin'')])" "distinct (map fst ([] :: string option obj))"
    by simp_all
  have s: "\<not> initialized (new_MCPTestClient node_config)
         \<and> transportKind (config (new_MCPTestClient node_config)) = stdio
         \<and> ambient world0 = [(''PATH'', Some ''/bin'')]
         \<and> env (config (new_MCPTestClient node_config)) = []"
    by (simp add: new_MCPTestClient_def node_config_def world0_def)
  from effective_environment [OF h1 h2, of "''PATH''"] effective_environment [OF h1 h2, of "''HOME''"]
    effective_environment [OF h1 h2, of "''__proto__''"]
    effective_environment [OF h3, of "''PATH''" "new_MCPTestClient node_config" world0 streams_ok None]
    s h1 h2
  show ?thesis by simp
qed

section \<open>Reading a resource\<close>

text \<open>
  C9. On a connected session, when the server's reply to \<^verbatim>\<open>readResource(uri)\<close> has a
  \<^verbatim>\<open>contents\<close> array with at least one element, the call returns the first element,
  whatever follows it; the one request sent is the read of that uri.
\<close>

theorem readResource_first_content:
  assumes "initialized s"
  shows "readResource u (Inr (Some (c # cs))) (s, w)
         = (Inr (Some c), s, w\<lparr> requests := requests w @ [ReadResource u] \<rparr>)"
  using assms
  by (simp add: readResource_def client_readResource_def remote_call_connected first_content_def)

theorem readResource_first_content_witness:
  "initialized (fst connected_state)
   \<and> fst (readResource ''file:///a.txt'' (Inr (Some [content_a, content_b]))
           (fst connected_state, snd connected_state)) = Inr (Some content_a)"
proof -
  have h: "initialized (fst connected_state)"
    by (rule connected_state_initialized)
  from readResource_first_content [OF h, of "''file:///a.txt''" content_a "[content_b]"
      "snd connected_state"] h
  show ?thesis by simp
qed

lemma readResource_missing_contents:
  "initialized s \<Longrightarrow>
   readResource u (Inr None) (s, w)
     = (Inl (ZodError ''contents''), s, w\<lparr> requests := requests w @ [ReadResource u] \<rparr>)"
  by (simp add: readResource_def client_readResource_def remote_call_def ensureConnected_ok)

text \<open>
  C10, the claim as it stands fails: on a connected session, a server result without
  \<^verbatim>\<open>contents\<close> does not make \<^verbatim>\<open>readResource\<close> return
  \<^verbatim>\<open>undefined\<close>; the SDK client rejects the result and the call fails.
\<close>

theorem readResource_missing_contents_rejected:
  "initialized (fst connected_state)
   \<and> fst (readResource ''file:///a.txt'' (Inr None) connected_state) = Inl (ZodError ''contents'')
   \<and> fst (readResource ''file:///a.txt'' (Inr None) connected_state) \<noteq> Inr None"
proof -
  have i: "initialized (fst connected_state)"
    by (rule connected_state_initialized)
  from readResource_missing_contents [OF i, of "''file:///a.txt''" "snd connected_state"]
  have "fst (readResource ''file:///a.txt'' (Inr None) connected_state)
          = Inl (ZodError ''contents'')"
    by simp
  with i show ?thesis by simp
qed

text \<open>
  C10, amended. On a connected session, when the server's reply to
  \<^verbatim>\<open>readResource(uri)\<close> has an empty \<^verbatim>\<open>contents\<close> array, the call returns
  normally, and what it returns is \<^verbatim>\<open>undefined\<close> (no content). When the reply has no
  \<^verbatim>\<open>contents\<close> at all, the call fails with the validation error of the SDK client.
  In both cases the one request sent is the read of that uri.
\<close>

theorem readResource_no_content:
  assumes "initialized s"
  shows "readResource u (Inr (Some [])) (s, w)
           = (Inr None, s, w\<lparr> requests := requests w @ [ReadResource u] \<rparr>)
       \<and> readResource u (Inr None) (s, w)
           = (Inl (ZodError ''contents''), s, w\<lparr> requests := requests w @ [ReadResource u] \<rparr>)"
  using assms
  by (simp add: readResource_def client_readResource_def remote_call_def ensureConnected_ok
      first_content_def)

theorem readResource_no_content_witness:
  "initialized (fst connected_state)
   \<and> fst (readResource ''file:///a.txt'' (Inr (Some [])) (fst connected_state, snd connected_state))
       = Inr None
   \<and> fst (readResource ''file:///a.txt'' (Inr None) (fst connected_state, snd connected_state))
       = Inl (ZodError ''contents'')"
proof -
  have h: "initialized (fst connected_state)"
    by (rule connected_state_initialized)
  from readResource_no_content [OF h, of "''file:///a.txt''" "snd connected_state"] h
  show ?thesis by simp
qed

section \<open>Processes left behind by a failed connect\<close>

lemma new_pids_known:
  "\<forall>p \<in> set (signalled w0). p < length (spawned w0) \<Longrightarrow> pids_known (new_MCPTestClient c, w0)"
  by (simp add: pids_known_def new_MCPTestClient_def)

lemma connect_pids_known: "pids_known st \<Longrightarrow> pids_known (snd (connect so h st))"
  by (cases st)
     (auto simp: pids_known_def connect_def Let_def spawn_def console_log_def less_Suc_eq
       split: option.splits)

lemma disconnect_pids_known: "pids_known st \<Longrightarrow> pids_known (snd (disconnect closing st))"
  by (cases st)
     (auto simp: pids_known_def disconnect_def Let_def kill_def console_log_def
       split: option.splits)

lemma step_pids_known: "pids_known st \<Longrightarrow> pids_known (step x st)"
  by (cases x) (simp_all add: connect_pids_known disconnect_pids_known)

lemma run_pids_known: "pids_known st \<Longrightarrow> pids_known (run ops st)"
  unfolding run_def by (induction ops arbitrary: st) (simp_all add: step_pids_known)

lemma live_spawn:
  "length (spawned w) \<notin> set (signalled w) \<Longrightarrow>
   live (snd (spawn cmd as e so w)) =
     (if so_started so then live w @ [length (spawned w)] else live w)"
  by (simp add: live_def spawn_def Let_def)

lemma connect_failed_after_spawn:
  assumes "\<not> initialized s" and "transportKind (config s) = stdio"
    and "connect so handshake (s, w) = (Inl e, s', w')"
  shows "\<not> initialized s'
       \<and> process s' = Some \<lparr> pid = length (spawned w), stdin = so_stdin so, stdout = so_stdout so \<rparr>
       \<and> w' = snd (spawn (command (config s)) (args (config s))
                     (processEnv (ambient w) (env (config s))) so w)"
  using assms
  by (auto simp: connect_def Let_def spawn_def split: option.splits if_splits)

text \<open>
  C1, as the code behaves. Take any state a fresh session reaches, not connected, with
  transport kind \<open>stdio\<close>, and a \<^verbatim>\<open>connect\<close> that fails there (the streams are
  missing, or the handshake rejects) although the process started. Afterwards the session
  is not connected, but it holds the handle of the new process, the process is alive in
  addition to those that were, and \<^verbatim>\<open>disconnect\<close> is a no-op that leaves it so.
\<close>

theorem failed_connect_leaves_process:
  assumes "\<forall>p \<in> set (signalled w0). p < length (spawned w0)"
    and "run ops (new_MCPTestClient c, w0) = (s, w)"
    and "\<not> initialized s" and "transportKind (config s) = stdio"
    and "so_started so"
    and "connect so handshake (s, w) = (Inl e, s', w')"
  shows "\<not> initialized s'
       \<and> process s' = Some \<lparr> pid = length (spawned w), stdin = so_stdin so, stdout = so_stdout so \<rparr>
       \<and> live w' = live w @ [length (spawned w)]
       \<and> disconnect closing (s', w') = (Inr (), s', w')"
proof -
  have "pids_known (s, w)"
    using run_pids_known [OF new_pids_known [OF assms(1)], of ops c] assms(2) by simp
  then have fresh: "length (spawned w) \<notin> set (signalled w)"
    by (auto simp: pids_known_def)
  note f = connect_failed_after_spawn [OF assms(3,4,6)]
  from f have "live w' = live w @ [length (spawned w)]"
    using live_spawn [OF fresh] assms(5) by simp
  moreover from f have "disconnect closing (s', w') = (Inr (), s', w')"
    by (simp add: disconnect_noop)
  ultimately show ?thesis using f by simp
qed

theorem failed_connect_leaves_process_witness:
  "(\<exists>s' w'. connect streams_ok (Some (Error ''handshake failed''))
               (new_MCPTestClient node_config, world0) = (Inl (Error ''handshake failed''), s', w')
      \<and> \<not> initialized s'
      \<and> process s' = Some \<lparr> pid = 0, stdin = True, stdout = True \<rparr>
      \<and> live world0 = [] \<and> live w' = [0]
      \<and> disconnect None (s', w') = (Inr (), s', w'))
   \<and> (\<exists>s' w'. connect no_stdin None (new_MCPTestClient node_config, world0) = (Inl LaunchError, s', w')
      \<and> \<not> initialized s'
      \<and> process s' = Some \<lparr> pid = 0, stdin = False, stdout = True \<rparr>
      \<and> live w' = [0]
      \<and> disconnect None (s', w') = (Inr (), s', w'))"
proof -
  have h1: "\<forall>p \<in> set (signalled world0). p < length (spawned world0)"
    by (simp add: world0_def)
  have h2: "run [] (new_MCPTestClient node_config, world0) = (new_MCPTestClient node_config, world0)"
    by (simp add: run_def)
  have h3: "\<not> initialized (new_MCPTestClient node_config)"
    by (rule new_not_initialized)
  have h4: "transportKind (config (new_MCPTestClient node_config)) = stdio"
    by (simp add: new_MCPTestClient_def node_config_def)
  have h5: "so_started streams_ok" "so_started no_stdin"
    by (simp_all add: streams_ok_def no_stdin_def)
  obtain s1 w1 where c1: "connect streams_ok (Some (Error ''handshake failed''))
               (new_MCPTestClient node_config, world0) = (Inl (Error ''handshake failed''), s1, w1)"
    by (simp add: lifecycle_defs demo_defs)
  obtain s2 w2 where c2: "connect no_stdin None (new_MCPTestClient node_config, world0)
               = (Inl LaunchError, s2, w2)"
    by (simp add: lifecycle_defs demo_defs)
  have l0: "live world0 = []" "spawned world0 = []"
    by (simp_all add: live_def world0_def)
  from failed_connect_leaves_process [OF h1 h2 h3 h4 h5(1) c1, of None]
    failed_connect_leaves_process [OF h1 h2 h3 h4 h5(2) c2, of None] c1 c2 l0
  show ?thesis by (simp add: streams_ok_def no_stdin_def)
qed

text \<open>
  C2, as the code behaves. A \<^verbatim>\<open>connect\<close> whose handshake rejects, then a
  \<^verbatim>\<open>connect\<close> that succeeds: the session is connected and two processes it spawned are
  alive. A \<^verbatim>\<open>disconnect\<close> then signals the second only; the first stays alive.
\<close>

theorem retry_after_failed_connect_two_live:
  "live (snd (run [Connect streams_ok (Some (Error ''handshake failed'')), Connect streams_ok None]
               (new_MCPTestClient node_config, world0))) = [0, 1]
   \<and> initialized (fst (run [Connect streams_ok (Some (Error ''handshake failed'')),
                            Connect streams_ok None]
                        (new_MCPTestClient node_config, world0)))
   \<and> live (snd (run [Connect streams_ok (Some (Error ''handshake failed'')), Connect streams_ok None,
                    Disconnect None]
               (new_MCPTestClient node_config, world0))) = [0]"
  by (simp add: run_def lifecycle_defs demo_defs live_def)

end
